theory Spec2Isabelle
  imports Main "HOL-Library.AList"
begin

section \<open>Data model of feedfetch.py\<close>

text \<open>
  A \<open>datetime\<close> is a count of microseconds (the resolution of Python's
  \<open>datetime\<close>) since \<open>datetime.min\<close>, the first instant of the year 1. The values
  that Python can represent end with the last microsecond of the year 9999, which is
  3652059 days after \<open>datetime.min\<close>.
\<close>

type_synonym datetime = int

definition datetime_max :: int where
  "datetime_max = 3652059 * 86400 * 1000000"

text \<open>
  The result of feedparser's \<open>parse\<close>, a \<open>FeedParserDict\<close>, with the keys that
  \<open>FeedCache.fetch\<close> reads through \<open>.get\<close>: \<open>status\<close> (absent when nothing was
  fetched over HTTP), \<open>entries\<close>, \<open>bozo\<close>, \<open>bozo_exception\<close>, the \<open>headers\<close>
  dictionary, \<open>etag\<close> and \<open>modified\<close>. The shape is the one feedparser gives to a
  result and the spec gives to a FetchedResource: the status is an integer, the entries
  are a sequence (opaque to the cache), the flag is a truth value, and the headers are a
  dictionary from names to strings, here an association list looked up by \<open>map_of\<close>.
  The bozo exception appears as the text it is formatted to. Strings are strings of
  bytes, so the digits of the regular expression are the ten ASCII digits.
\<close>

record FeedParserDict =
  status :: "int option"
  entries :: "string list"
  bozo :: bool
  bozo_exception :: "string option"
  headers :: "(string \<times> string) list"
  etag :: "string option"
  modified :: "string option"

text \<open>\<open>FeedCache.Feed\<close>: a parsed feed with its expiry time.\<close>

record Feed =
  feed :: FeedParserDict
  expire_dt :: datetime

text \<open>
  The exceptions that leave \<open>fetch\<close>: its own \<open>FetchError\<close> (message and status
  code) and \<open>ParseError\<close> (message), Python's \<open>AttributeError\<close> for an attribute read
  on \<open>None\<close>, \<open>ValueError\<close> from \<open>int\<close>, \<open>OverflowError\<close> from the arithmetic
  of \<open>datetime\<close>, and whatever the parse function raises itself (\<open>URLError\<close>).
\<close>

datatype error =
    FetchError string "int option"
  | ParseError string
  | AttributeError
  | ValueError
  | OverflowError
  | URLError

text \<open>
  \<open>datetime.timedelta(seconds=n)\<close> splits \<open>n\<close> into days and a rest by floor
  division and raises \<open>OverflowError\<close> when the days exceed 999999999 in magnitude;
  otherwise it is a span of \<open>n\<close> million microseconds.
\<close>

definition timedelta :: "int \<Rightarrow> error + int" where
  "timedelta seconds =
     (if \<bar>seconds div 86400\<bar> > 999999999 then Inl OverflowError
      else Inr (seconds * 1000000))"

text \<open>
  \<open>datetime + timedelta\<close> raises \<open>OverflowError\<close> when the sum is not a date
  of the years 1 to 9999.
\<close>

definition datetime_add :: "datetime \<Rightarrow> int \<Rightarrow> error + datetime" where
  "datetime_add t d =
     (if 0 \<le> t + d \<and> t + d < datetime_max then Inr (t + d) else Inl OverflowError)"

text \<open>
  What \<open>fetch\<close> reads of its \<open>FeedCache\<close> object, and the interpreter it runs on.
  The parse function is the injected collaborator: it is called with the url and the
  two validators and raises, returns \<open>None\<close>, or returns a \<open>FeedParserDict\<close>. The
  last field is the interpreter's \<open>sys.get_int_max_str_digits()\<close>, the longest digit
  string that \<open>int\<close> converts: 4300 by default since Python 3.11, and 0 for no limit,
  which is also the behaviour of every earlier interpreter.
\<close>

record FeedCache =
  min_age :: int
  parse :: "string \<Rightarrow> string option \<Rightarrow> string option \<Rightarrow> error + FeedParserDict option"
  int_max_str_digits :: nat

text \<open>
  The world outside the object: the shelf file at \<open>self.path\<close> (\<open>None\<close> when
  \<open>os.path.exists\<close> is false) and the log of the effects performed so far: shelf
  sessions opened (with their flag), shelf reads and writes, and calls of the parse
  function with its arguments.
\<close>

datatype event =
    OpenShelf string
  | ShelfGet string
  | ShelfSet string
  | Parse string "string option" "string option"

record 'v world =
  db_file :: "(string \<times> 'v) list option"
  events :: "event list"

section \<open>The cache database\<close>

text \<open>\<open>FeedCache.__get\<close>: the shelf is opened only when the file exists.\<close>

definition FeedCache_get :: "Feed world \<Rightarrow> string \<Rightarrow> Feed option \<times> Feed world" where
  "FeedCache_get w url =
     (case db_file w of
        Some shelf \<Rightarrow>
          (map_of shelf url, w\<lparr>events := events w @ [OpenShelf ''r'', ShelfGet url]\<rparr>)
      | None \<Rightarrow> (None, w))"

text \<open>\<open>FeedCache.__update\<close>: flag \<open>'c'\<close> creates the file when it is missing.\<close>

definition FeedCache_update :: "Feed world \<Rightarrow> string \<Rightarrow> Feed \<Rightarrow> Feed world" where
  "FeedCache_update w url fd =
     w\<lparr>db_file := Some (AList.update url fd (case db_file w of Some shelf \<Rightarrow> shelf | None \<Rightarrow> [])),
       events := events w @ [OpenShelf ''c'', ShelfSet url]\<rparr>"

section \<open>String helpers of the Python library\<close>

text \<open>\<open>str.lstrip(chars)\<close> removes every leading character that occurs in \<open>chars\<close>.\<close>

definition lstrip :: "string \<Rightarrow> string \<Rightarrow> string" where
  "lstrip chars s = dropWhile (\<lambda>c. c \<in> set chars) s"

definition is_digit :: "char \<Rightarrow> bool" where
  "is_digit c = (c \<in> set ''0123456789'')"

text \<open>The number that a string of decimal digits denotes.\<close>

definition int_of_digits :: "string \<Rightarrow> int" where
  "int_of_digits ds = foldl (\<lambda>a c. 10 * a + (int (of_char c) - 48)) 0 ds"

text \<open>
  \<open>int(s)\<close> on a string of decimal digits, under the interpreter's limit: with a
  limit other than 0, a string of more digits (leading zeros count) raises
  \<open>ValueError\<close>.
\<close>

definition py_int :: "nat \<Rightarrow> string \<Rightarrow> error + int" where
  "py_int limit ds =
     (if 0 < limit \<and> limit < length ds then Inl ValueError else Inr (int_of_digits ds))"

text \<open>
  \<open>re.search('max-age=(\d+)', s)\<close>: the leftmost position where the literal is
  followed by at least one digit; the group is the longest run of digits there.
\<close>

fun re_search_max_age :: "string \<Rightarrow> string option" where
  "re_search_max_age [] = None"
| "re_search_max_age (c # cs) =
     (let ds = takeWhile is_digit (drop 8 (c # cs)) in
      if take 8 (c # cs) = ''max-age='' \<and> ds \<noteq> [] then Some ds
      else re_search_max_age cs)"

section \<open>\<open>FeedCache.fetch\<close>\<close>

text \<open>Lines 114 to 116: the validators taken from a stale cached feed.\<close>

definition validators :: "Feed option \<Rightarrow> string option \<times> string option" where
  "validators cached =
     (case cached of
        Some c \<Rightarrow>
          ((case etag (feed c) of
              Some e \<Rightarrow> if e \<noteq> [] then Some (lstrip ''W/'' e) else None
            | None \<Rightarrow> None),
           modified (feed c))
      | None \<Rightarrow> (None, None))"

text \<open>
  Lines 128 to 137: the checks on the result, in the order of the source. A result
  that passes them is handed on.
\<close>

definition str_opt :: "string option \<Rightarrow> string" where
  "str_opt x = (case x of Some s \<Rightarrow> s | None \<Rightarrow> ''None'')"

definition check_result :: "FeedParserDict option \<Rightarrow> error + FeedParserDict" where
  "check_result r =
     (case r of
        None \<Rightarrow> Inl (FetchError ''Failed to fetch feed'' None)
      | Some f \<Rightarrow>
          (case status f of
             None \<Rightarrow> Inl (FetchError ''Failed to fetch feed'' None)
           | Some st \<Rightarrow>
               if st > 399 then Inl (FetchError ''HTTP error'' (Some st))
               else if st < 399 \<and> length (entries f) = 0 \<and> bozo f
                 then Inl (ParseError (''Parse error: '' @ str_opt (bozo_exception f)))
               else Inr f))"

text \<open>
  Lines 148 to 153: the header that is searched, and the TTL. The conversion of line
  151 can raise. The value of the directive, for the statements below, is
  \<open>max_age_directive\<close>.
\<close>

definition cc_header :: "FeedParserDict \<Rightarrow> string" where
  "cc_header f = (case map_of (headers f) ''cache-control'' of Some v \<Rightarrow> v | None \<Rightarrow> [])"

definition max_age_directive :: "FeedParserDict \<Rightarrow> int option" where
  "max_age_directive f = map_option int_of_digits (re_search_max_age (cc_header f))"

definition next_min_age :: "FeedCache \<Rightarrow> FeedParserDict \<Rightarrow> error + int" where
  "next_min_age self f =
     (case re_search_max_age (cc_header f) of
        Some g \<Rightarrow>
          (case py_int (int_max_str_digits self) g of
             Inl e \<Rightarrow> Inl e
           | Inr d \<Rightarrow> Inr (min d (min_age self)))
      | None \<Rightarrow> Inr (min_age self))"

text \<open>
  Line 154: \<open>now + datetime.timedelta(seconds=min_age)\<close>, where both the span and
  the sum can raise.
\<close>

definition next_expire_dt :: "FeedCache \<Rightarrow> datetime \<Rightarrow> FeedParserDict \<Rightarrow> error + datetime" where
  "next_expire_dt self now f =
     (case next_min_age self f of
        Inl e \<Rightarrow> Inl e
      | Inr s \<Rightarrow>
          (case timedelta s of
             Inl e \<Rightarrow> Inl e
           | Inr d \<Rightarrow> datetime_add now d))"

text \<open>
  Lines 141 to 144: on a 304 the feed of \<open>fetched\<close> is replaced by the cached one;
  reading \<open>cached.feed\<close> when nothing was cached raises \<open>AttributeError\<close>.
\<close>

definition fetched_feed :: "Feed option \<Rightarrow> FeedParserDict \<Rightarrow> error + FeedParserDict" where
  "fetched_feed cached f =
     (if status f = Some 304
      then (case cached of Some c \<Rightarrow> Inr (feed c) | None \<Rightarrow> Inl AttributeError)
      else Inr f)"

text \<open>
  Lines 124 to 156: the request to the origin and what follows it. The expiry of
  \<open>fetched\<close> is set from the headers of its feed just before it is stored; when its
  computation raises, nothing is stored.
\<close>

definition fetch_remote ::
  "FeedCache \<Rightarrow> datetime \<Rightarrow> Feed world \<Rightarrow> string \<Rightarrow> Feed option \<Rightarrow> (error + FeedParserDict) \<times> Feed world" where
  "fetch_remote self now w url cached =
     (case validators cached of (etag', lastmod) \<Rightarrow>
       (let w' = w\<lparr>events := events w @ [Parse url etag' lastmod]\<rparr> in
        case parse self url etag' lastmod of
          Inl e \<Rightarrow> (Inl e, w')
        | Inr r \<Rightarrow>
            (case check_result r of
               Inl e \<Rightarrow> (Inl e, w')
             | Inr f \<Rightarrow>
                 (case fetched_feed cached f of
                    Inl e \<Rightarrow> (Inl e, w')
                  | Inr p \<Rightarrow>
                      (case next_expire_dt self now p of
                         Inl e \<Rightarrow> (Inl e, w')
                       | Inr t \<Rightarrow>
                           (Inr p, FeedCache_update w' url \<lparr>feed = p, expire_dt = t\<rparr>))))))"

text \<open>Lines 100 to 118: the cache lookup, with the clock reading \<open>now\<close> of line 102.\<close>

definition fetch ::
  "FeedCache \<Rightarrow> datetime \<Rightarrow> Feed world \<Rightarrow> string \<Rightarrow> (error + FeedParserDict) \<times> Feed world" where
  "fetch self now w url =
     (case FeedCache_get w url of (cached, w') \<Rightarrow>
        (case cached of
           Some c \<Rightarrow>
             if now < expire_dt c then (Inr (feed c), w')
             else fetch_remote self now w' url cached
         | None \<Rightarrow> fetch_remote self now w' url cached))"

text \<open>The entry that the shelf holds for a url; none when there is no file.\<close>

definition cached_entry :: "'v world \<Rightarrow> string \<Rightarrow> 'v option" where
  "cached_entry w url = (case db_file w of Some shelf \<Rightarrow> map_of shelf url | None \<Rightarrow> None)"

text \<open>The effects of the cache read of line 105.\<close>

definition read_events :: "'v world \<Rightarrow> string \<Rightarrow> event list" where
  "read_events w url = (case db_file w of Some shelf \<Rightarrow> [OpenShelf ''r'', ShelfGet url] | None \<Rightarrow> [])"

text \<open>A fresh hit: the one case in which \<open>fetch\<close> does not go to the origin.\<close>

definition fresh_hit :: "datetime \<Rightarrow> Feed world \<Rightarrow> string \<Rightarrow> bool" where
  "fresh_hit now w url = (case cached_entry w url of Some c \<Rightarrow> now < expire_dt c | None \<Rightarrow> False)"

section \<open>The TTL cache\<close>

text \<open>
  Modelled from the spec: the TTL cache (class \<open>ShelfCache\<close> and its \<open>Item\<close> in
  \<open>feedfetch/shelfcache.py\<close>) is missing from the source files; only its tests are
  there. The entry has the fields of the spec's CacheEntry. \<open>get\<close> opens a read
  session unless the store is absent, returns no result for an absent key and the
  payload with its staleness otherwise; staleness holds at or after the expiry, never
  without one. The indexed read signals \<open>KeyError\<close> for a missing key.
  \<open>create_or_update\<close> takes an absolute expiry, a TTL in seconds (the expiry is then
  the time of the write plus the TTL, in microseconds) or neither, stamps the entry
  with the time of the write and overwrites.
\<close>

record 'a CacheEntry =
  payload :: 'a
  expire_at :: "datetime option"
  created_at :: datetime

datatype expiry = Never | At datetime | After int

datatype cache_error = KeyError

text \<open>
  Modelled from the spec: the staleness that \<open>get\<close> reports, false without an expiry
  and strictly before it, true at or after it.
\<close>

definition is_stale :: "datetime \<Rightarrow> 'a CacheEntry \<Rightarrow> bool" where
  "is_stale now e = (case expire_at e of None \<Rightarrow> False | Some t \<Rightarrow> t \<le> now)"

text \<open>
  Modelled from the spec: \<open>ShelfCache.get\<close>, the read that returns an optional result.
  An absent store is an empty one and no session is opened on it, as the test
  \<open>test_no_db\<close> has it.
\<close>

definition ShelfCache_get ::
  "datetime \<Rightarrow> 'a CacheEntry world \<Rightarrow> string \<Rightarrow> ('a \<times> bool) option \<times> 'a CacheEntry world" where
  "ShelfCache_get now w key =
     (case db_file w of
        Some shelf \<Rightarrow>
          (map_option (\<lambda>e. (payload e, is_stale now e)) (map_of shelf key),
           w\<lparr>events := events w @ [OpenShelf ''r'', ShelfGet key]\<rparr>)
      | None \<Rightarrow> (None, w))"

text \<open>
  Modelled from the spec: \<open>ShelfCache.__getitem__\<close>, the indexed read, which behaves as
  \<open>get\<close> does but raises \<open>KeyError\<close> for a missing key.
\<close>

definition ShelfCache_getitem ::
  "datetime \<Rightarrow> 'a CacheEntry world \<Rightarrow> string \<Rightarrow> (cache_error + 'a \<times> bool) \<times> 'a CacheEntry world" where
  "ShelfCache_getitem now w key =
     (case ShelfCache_get now w key of
        (Some r, w') \<Rightarrow> (Inr r, w')
      | (None, w') \<Rightarrow> (Inl KeyError, w'))"

text \<open>
  Modelled from the spec: \<open>ShelfCache.create_or_update\<close>, which opens a write session
  and stores a new entry under the key, stamped with the time of the write.
\<close>

definition create_or_update ::
  "datetime \<Rightarrow> 'a CacheEntry world \<Rightarrow> string \<Rightarrow> 'a \<Rightarrow> expiry \<Rightarrow> 'a CacheEntry world" where
  "create_or_update now w key v x =
     w\<lparr>db_file :=
         Some (AList.update key
                 \<lparr>payload = v,
                  expire_at = (case x of Never \<Rightarrow> None | At t \<Rightarrow> Some t
                               | After s \<Rightarrow> Some (now + s * 1000000)),
                  created_at = now\<rparr>
                 (case db_file w of Some shelf \<Rightarrow> shelf | None \<Rightarrow> [])),
       events := events w @ [OpenShelf ''c'', ShelfSet key]\<rparr>"

text \<open>A history of writes, each with its clock reading, applied in order.\<close>

fun run_writes ::
  "'a CacheEntry world \<Rightarrow> (datetime \<times> string \<times> 'a \<times> expiry) list \<Rightarrow> 'a CacheEntry world" where
  "run_writes w [] = w"
| "run_writes w ((t, key, v, x) # ws) = run_writes (create_or_update t w key v x) ws"

section \<open>Sample data\<close>

text \<open>A stored feed with an entity tag and a max-age of one minute.\<close>

definition stored_feed :: FeedParserDict where
  "stored_feed =
     \<lparr>status = Some 200, entries = [''first post'', ''second post''], bozo = False,
      bozo_exception = None, headers = [(''cache-control'', ''max-age=60'')],
      etag = Some ''W/abc'', modified = Some ''Sat, 01 Jan 2022 00:00:00 GMT''\<rparr>"

text \<open>A store that holds the stored feed for the url \<open>u\<close>, expiring at the given time.\<close>

definition store_until :: "datetime \<Rightarrow> Feed world" where
  "store_until t = \<lparr>db_file = Some [(''u'', \<lparr>feed = stored_feed, expire_dt = t\<rparr>)], events = []\<rparr>"

definition no_store :: "Feed world" where
  "no_store = \<lparr>db_file = None, events = []\<rparr>"

text \<open>A response without body: a status, no entries, the given flag and headers.\<close>

definition response :: "int \<Rightarrow> bool \<Rightarrow> (string \<times> string) list \<Rightarrow> FeedParserDict" where
  "response st b hs =
     \<lparr>status = Some st, entries = [], bozo = b,
      bozo_exception = (if b then Some ''not well-formed'' else None), headers = hs,
      etag = None, modified = None\<rparr>"

text \<open>
  A cache with the default \<open>min_age\<close> whose parse function returns a fixed result, on
  an interpreter with the default limit of \<open>int\<close>.
\<close>

definition cache_returning :: "FeedParserDict option \<Rightarrow> FeedCache" where
  "cache_returning r =
     \<lparr>min_age = 1200, parse = (\<lambda>url etag' lastmod. Inr r), int_max_str_digits = 4300\<rparr>"

text \<open>A stored feed without a cache-control header.\<close>

definition plain_feed :: FeedParserDict where
  "plain_feed =
     \<lparr>status = Some 200, entries = [''first post''], bozo = False, bozo_exception = None,
      headers = [], etag = None, modified = None\<rparr>"

text \<open>A store that holds it for the url \<open>u\<close>, expired at the time 50.\<close>

definition plain_store :: "Feed world" where
  "plain_store = \<lparr>db_file = Some [(''u'', \<lparr>feed = plain_feed, expire_dt = 50\<rparr>)], events = []\<rparr>"

section \<open>Basic facts\<close>

lemma FeedCache_get_entry: "fst (FeedCache_get w url) = cached_entry w url"
  by (simp add: FeedCache_get_def cached_entry_def split: option.splits)

lemma FeedCache_get_db: "db_file (snd (FeedCache_get w url)) = db_file w"
  by (simp add: FeedCache_get_def split: option.splits)

lemma FeedCache_get_events:
  "events (snd (FeedCache_get w url)) = events w @ read_events w url"
  by (simp add: FeedCache_get_def read_events_def split: option.splits)

lemma FeedCache_get_world:
  "snd (FeedCache_get w url) = w\<lparr>events := events w @ read_events w url\<rparr>"
  by (simp add: FeedCache_get_def read_events_def split: option.splits)

lemma fetch_not_fresh:
  "\<not> fresh_hit now w url \<Longrightarrow>
   fetch self now w url =
     fetch_remote self now (w\<lparr>events := events w @ read_events w url\<rparr>) url (cached_entry w url)"
  by (auto simp: fetch_def fresh_hit_def FeedCache_get_def cached_entry_def read_events_def
      split: option.splits)

lemma fetch_remote_rejected:
  assumes "validators cached = (e, m)" and "parse self url e m = Inr r"
    and "check_result r = Inl err"
  shows "fetch_remote self now w url cached = (Inl err, w\<lparr>events := events w @ [Parse url e m]\<rparr>)"
  using assms by (simp add: fetch_remote_def)

section \<open>Reading a cache whose file does not exist\<close>

text \<open>
  C8. When the shelf file does not exist at the configured path, the cache read
  \<open>FeedCache.__get\<close> reports the key as missing for every key: it returns no result, it
  does not fail, and it leaves the world as it was, so no shelf session is opened.
\<close>

theorem get_without_db_file:
  "db_file w = None \<Longrightarrow> FeedCache_get w url = (None, w) \<and> events (snd (FeedCache_get w url)) = events w"
  by (simp add: FeedCache_get_def)

theorem get_without_db_file_witness:
  "db_file no_store = None \<and> FeedCache_get no_store ''u'' = (None, no_store)
   \<and> events (snd (FeedCache_get no_store ''u'')) = []"
  using get_without_db_file [of no_store "''u''"] by (simp add: no_store_def)

section \<open>Rejected results\<close>

text \<open>
  C2. Whenever \<open>fetch\<close> goes to the origin (the cache has no fresh entry for the url)
  and the parse function returns a result: if the result is \<open>None\<close> or has no status,
  \<open>fetch\<close> raises \<open>FetchError\<close> without a status code; if its status is at least 400,
  \<open>fetch\<close> raises \<open>FetchError\<close> carrying that status. In both cases the only effects
  are the read of the shelf and the call of the parse function: the shelf file is
  exactly as before, and so is the entry stored for the url.
\<close>

theorem fetch_error_no_write:
  assumes "\<not> fresh_hit now w url"
    and "validators (cached_entry w url) = (e, m)"
    and "parse self url e m = Inr r"
  shows "(r = None \<or> (\<exists>f. r = Some f \<and> status f = None) \<longrightarrow>
            fetch self now w url =
              (Inl (FetchError ''Failed to fetch feed'' None),
               w\<lparr>events := events w @ read_events w url @ [Parse url e m]\<rparr>))
       \<and> (\<forall>f st. r = Some f \<and> status f = Some st \<and> 400 \<le> st \<longrightarrow>
            fetch self now w url =
              (Inl (FetchError ''HTTP error'' (Some st)),
               w\<lparr>events := events w @ read_events w url @ [Parse url e m]\<rparr>))
       \<and> (r = None \<or> (\<exists>f. r = Some f \<and> (status f = None \<or> (\<exists>st. status f = Some st \<and> 400 \<le> st))) \<longrightarrow>
            db_file (snd (fetch self now w url)) = db_file w
            \<and> cached_entry (snd (fetch self now w url)) url = cached_entry w url)"
proof -
  let ?w = "w\<lparr>events := events w @ read_events w url\<rparr>"
  have step: "\<And>err. check_result r = Inl err \<Longrightarrow>
      fetch self now w url = (Inl err, w\<lparr>events := events w @ read_events w url @ [Parse url e m]\<rparr>)"
    using assms fetch_remote_rejected [of "cached_entry w url" e m self url r _ now ?w]
    by (simp add: fetch_not_fresh)
  have none: "r = None \<or> (\<exists>f. r = Some f \<and> status f = None) \<Longrightarrow>
      check_result r = Inl (FetchError ''Failed to fetch feed'' None)"
    by (auto simp: check_result_def)
  have high: "\<And>f st. r = Some f \<Longrightarrow> status f = Some st \<Longrightarrow> 400 \<le> st \<Longrightarrow>
      check_result r = Inl (FetchError ''HTTP error'' (Some st))"
    by (simp add: check_result_def)
  show ?thesis
    using step none high by (auto simp: cached_entry_def)
qed

theorem fetch_error_no_write_witness:
  "fetch (cache_returning (Some (response 500 False []))) 100 (store_until 50) ''u'' =
     (Inl (FetchError ''HTTP error'' (Some 500)),
      (store_until 50)\<lparr>events := [OpenShelf ''r'', ShelfGet ''u'', Parse ''u'' (Some ''abc'') (Some ''Sat, 01 Jan 2022 00:00:00 GMT'')]\<rparr>)
   \<and> fetch (cache_returning None) 100 no_store ''u'' =
     (Inl (FetchError ''Failed to fetch feed'' None), no_store\<lparr>events := [Parse ''u'' None None]\<rparr>)"
  using fetch_error_no_write [of 100 "store_until 50" "''u''" "Some ''abc''"
      "Some ''Sat, 01 Jan 2022 00:00:00 GMT''" "cache_returning (Some (response 500 False []))"
      "Some (response 500 False [])"]
    fetch_error_no_write [of 100 no_store "''u''" None None "cache_returning None" None]
  by (simp add: fresh_hit_def cached_entry_def store_until_def no_store_def validators_def
      stored_feed_def lstrip_def cache_returning_def response_def read_events_def)

lemma fetch_remote_accepted:
  assumes "validators cached = (e, m)" and "parse self url e m = Inr r"
    and "check_result r = Inr f" and "fetched_feed cached f = Inr p"
    and "next_expire_dt self now p = Inr t"
  shows "fetch_remote self now w url cached =
           (Inr p, FeedCache_update (w\<lparr>events := events w @ [Parse url e m]\<rparr>) url
                     \<lparr>feed = p, expire_dt = t\<rparr>)"
  using assms by (simp add: fetch_remote_def)

lemma fetch_remote_no_expiry:
  assumes "validators cached = (e, m)" and "parse self url e m = Inr r"
    and "check_result r = Inr f" and "fetched_feed cached f = Inr p"
    and "next_expire_dt self now p = Inl err"
  shows "fetch_remote self now w url cached = (Inl err, w\<lparr>events := events w @ [Parse url e m]\<rparr>)"
  using assms by (simp add: fetch_remote_def)

lemma fetch_remote_no_cached_feed:
  assumes "validators cached = (e, m)" and "parse self url e m = Inr r"
    and "check_result r = Inr f" and "fetched_feed cached f = Inl err"
  shows "fetch_remote self now w url cached = (Inl err, w\<lparr>events := events w @ [Parse url e m]\<rparr>)"
  using assms by (simp add: fetch_remote_def)

lemma cached_entry_update: "cached_entry (FeedCache_update w url fd) url = Some fd"
  by (simp add: cached_entry_def FeedCache_update_def update_conv')

lemma fetch_remote_events:
  "\<exists>rest. events (snd (fetch_remote self now w url cached)) =
      events w @ Parse url (fst (validators cached)) (snd (validators cached)) # rest"
  by (auto simp: fetch_remote_def FeedCache_update_def Let_def split: prod.splits sum.splits)

section \<open>Fresh and stale entries\<close>

text \<open>
  C1, as amended. When the cache holds an entry for the url and the clock reading is
  strictly before the entry's expiry, \<open>fetch\<close> returns the feed of the entry; its only
  effects are the opening of the shelf for reading and the read, so the parse function
  is not called and nothing is written. When the expiry is at or before the clock
  reading (also exactly at expiry), the entry is stale: after the read, the parse
  function is called with the url and the validators of the stored feed.
\<close>

theorem fetch_fresh_or_stale:
  assumes "cached_entry w url = Some c"
  shows "(now < expire_dt c \<longrightarrow>
            fetch self now w url =
              (Inr (feed c), w\<lparr>events := events w @ [OpenShelf ''r'', ShelfGet url]\<rparr>))
       \<and> (expire_dt c \<le> now \<longrightarrow>
            (\<exists>rest. events (snd (fetch self now w url)) =
               events w @ [OpenShelf ''r'', ShelfGet url,
                           Parse url (fst (validators (Some c))) (snd (validators (Some c)))] @ rest))"
proof -
  from assms obtain shelf where shelf: "db_file w = Some shelf" "map_of shelf url = Some c"
    by (auto simp: cached_entry_def split: option.splits)
  have fresh: "now < expire_dt c \<Longrightarrow>
      fetch self now w url = (Inr (feed c), w\<lparr>events := events w @ [OpenShelf ''r'', ShelfGet url]\<rparr>)"
    using shelf by (simp add: fetch_def FeedCache_get_def)
  have stale: "\<exists>rest. events (snd (fetch self now w url)) =
      events w @ [OpenShelf ''r'', ShelfGet url,
                  Parse url (fst (validators (Some c))) (snd (validators (Some c)))] @ rest"
    if "expire_dt c \<le> now"
  proof -
    let ?w = "w\<lparr>events := events w @ [OpenShelf ''r'', ShelfGet url]\<rparr>"
    have "fetch self now w url = fetch_remote self now ?w url (Some c)"
      using shelf that by (simp add: fetch_def FeedCache_get_def)
    then show ?thesis
      using fetch_remote_events [of self now ?w url "Some c"] by auto
  qed
  show ?thesis using fresh stale by blast
qed

theorem fetch_fresh_or_stale_witness:
  "fetch (cache_returning None) 3 (store_until 5) ''u'' =
     (Inr stored_feed, (store_until 5)\<lparr>events := [OpenShelf ''r'', ShelfGet ''u'']\<rparr>)
   \<and> (\<exists>rest. events (snd (fetch (cache_returning None) 5 (store_until 5) ''u'')) =
         [OpenShelf ''r'', ShelfGet ''u'',
          Parse ''u'' (Some ''abc'') (Some ''Sat, 01 Jan 2022 00:00:00 GMT'')] @ rest)"
  using fetch_fresh_or_stale [where w = "store_until 5" and url = "''u''"
      and c = "\<lparr>feed = stored_feed, expire_dt = 5\<rparr>" and now = 3 and self = "cache_returning None"]
    fetch_fresh_or_stale [where w = "store_until 5" and url = "''u''"
      and c = "\<lparr>feed = stored_feed, expire_dt = 5\<rparr>" and now = 5 and self = "cache_returning None"]
  by (simp add: cached_entry_def store_until_def validators_def stored_feed_def lstrip_def)

text \<open>
  The claim as it is worded calls every entry whose expiry is at or after the clock
  reading stale. At the clock reading 3 the entry that expires at 5 is such an entry,
  and it is served from the cache without a call of the parse function.
\<close>

theorem fetch_expiry_after_now_counterexample:
  "cached_entry (store_until 5) ''u'' = Some \<lparr>feed = stored_feed, expire_dt = 5\<rparr>
   \<and> (3::int) \<le> expire_dt \<lparr>feed = stored_feed, expire_dt = 5\<rparr>
   \<and> fst (fetch (cache_returning None) 3 (store_until 5) ''u'') = Inr stored_feed
   \<and> events (snd (fetch (cache_returning None) 3 (store_until 5) ''u'')) =
       [OpenShelf ''r'', ShelfGet ''u'']"
  by (simp add: cached_entry_def store_until_def fetch_def FeedCache_get_def)

section \<open>Malformed results\<close>

text \<open>
  A result with a status below 399, no entries and the bozo flag raises \<open>ParseError\<close>
  with the text of the bozo exception, and nothing is written.
\<close>

lemma fetch_parse_error_below_399:
  assumes "\<not> fresh_hit now w url"
    and "validators (cached_entry w url) = (e, m)"
    and "parse self url e m = Inr (Some f)"
    and "status f = Some st" and "st < 399" and "entries f = []" and "bozo f"
  shows "fetch self now w url =
           (Inl (ParseError (''Parse error: '' @ str_opt (bozo_exception f))),
            w\<lparr>events := events w @ read_events w url @ [Parse url e m]\<rparr>)"
proof -
  have "check_result (Some f) = Inl (ParseError (''Parse error: '' @ str_opt (bozo_exception f)))"
    using assms(4-7) by (simp add: check_result_def)
  then show ?thesis
    using assms(1-3)
      fetch_remote_rejected [of "cached_entry w url" e m self url "Some f" _ now
        "w\<lparr>events := events w @ read_events w url\<rparr>"]
    by (simp add: fetch_not_fresh)
qed

text \<open>
  C3 at status 399. The source compares the status with \<open>> 399\<close> and then with
  \<open>< 399\<close>, so a result with status 399, no entries and the bozo flag passes both
  checks: it is returned and stored, where the claim has a \<open>ParseError\<close> and no write.
\<close>

theorem fetch_status_399_is_stored:
  "fetch (cache_returning (Some (response 399 True []))) 100 no_store ''u'' =
     (Inr (response 399 True []),
      \<lparr>db_file = Some [(''u'', \<lparr>feed = response 399 True [], expire_dt = 1200000100\<rparr>)],
       events = [Parse ''u'' None None, OpenShelf ''c'', ShelfSet ''u'']\<rparr>)"
  by (simp add: fetch_def FeedCache_get_def no_store_def fetch_remote_def validators_def
      cache_returning_def check_result_def response_def fetched_feed_def FeedCache_update_def
      next_expire_dt_def next_min_age_def cc_header_def timedelta_def datetime_add_def
      datetime_max_def)

section \<open>Validators\<close>

text \<open>
  A stored entity tag that starts with a character other than \<open>W\<close> and \<open>/\<close> (a
  quoted tag starts with the quote) is sent unchanged, and with the prefix \<open>W/\<close> in
  front it is sent without the prefix. The last-modified marker is always sent as stored.
\<close>

lemma lstrip_weak_prefix:
  assumes "t = x # xs" and "x \<noteq> CHR ''W''" and "x \<noteq> CHR ''/''"
  shows "lstrip ''W/'' t = t \<and> lstrip ''W/'' (''W/'' @ t) = t"
  using assms by (simp add: lstrip_def)

lemma validators_modified: "snd (validators (Some c)) = modified (feed c)"
  by (simp add: validators_def)

text \<open>
  C7 at the stored entity tag \<open>W5f3a\<close>. The source strips with \<open>lstrip('W/')\<close>, which
  removes every leading \<open>W\<close> and \<open>/\<close>, not the prefix \<open>W/\<close>: the tag has no weak
  prefix, and the parse function is called with \<open>5f3a\<close> where the claim has the tag
  unchanged.
\<close>

theorem fetch_etag_without_prefix_is_cut:
  "events (snd (fetch (cache_returning None) 100
      \<lparr>db_file = Some [(''u'', \<lparr>feed = stored_feed\<lparr>etag := Some ''W5f3a''\<rparr>, expire_dt = 50\<rparr>)],
       events = []\<rparr> ''u'')) =
     [OpenShelf ''r'', ShelfGet ''u'',
      Parse ''u'' (Some ''5f3a'') (Some ''Sat, 01 Jan 2022 00:00:00 GMT'')]"
  by (simp add: fetch_def FeedCache_get_def fetch_remote_def validators_def stored_feed_def
      lstrip_def cache_returning_def check_result_def)

section \<open>The search for the max-age directive\<close>

text \<open>
  What the search returns is a non-empty run of digits that follows the literal
  \<open>max-age=\<close> somewhere in the header and is not followed by another digit.
\<close>

lemma re_search_max_age_Some:
  "re_search_max_age s = Some ds \<Longrightarrow>
   ds \<noteq> [] \<and> (\<forall>c\<in>set ds. is_digit c)
   \<and> (\<exists>pre post. s = pre @ ''max-age='' @ ds @ post \<and> (post = [] \<or> \<not> is_digit (hd post)))"
proof (induction s)
  case Nil
  then show ?case by simp
next
  case (Cons c cs)
  let ?s = "c # cs"
  let ?run = "takeWhile is_digit (drop 8 ?s)"
  show ?case
  proof (cases "take 8 ?s = ''max-age='' \<and> ?run \<noteq> []")
    case True
    with Cons.prems have ds: "ds = ?run"
      by (simp add: Let_def)
    let ?post = "dropWhile is_digit (drop 8 ?s)"
    have "?s = take 8 ?s @ drop 8 ?s"
      by (simp only: append_take_drop_id)
    also have "\<dots> = ''max-age='' @ ?run @ ?post"
      using True by (simp only: takeWhile_dropWhile_id)
    finally have split: "?s = [] @ ''max-age='' @ ds @ ?post"
      using ds by simp
    have last: "?post = [] \<or> \<not> is_digit (hd ?post)"
      using hd_dropWhile [of is_digit "drop 8 ?s"] by blast
    have digits: "\<forall>c\<in>set ds. is_digit c"
      using ds set_takeWhileD [of _ is_digit "drop 8 ?s"] by blast
    from True ds have "ds \<noteq> []" by simp
    with digits split last show ?thesis by blast
  next
    case False
    with Cons.prems have "re_search_max_age cs = Some ds"
      by (simp add: Let_def split: if_splits)
    from Cons.IH [OF this] obtain pre post where
      "ds \<noteq> []" "\<forall>c\<in>set ds. is_digit c"
      "cs = pre @ ''max-age='' @ ds @ post" "post = [] \<or> \<not> is_digit (hd post)"
      by blast
    then have "?s = (c # pre) @ ''max-age='' @ ds @ post"
      by simp
    with \<open>ds \<noteq> []\<close> \<open>\<forall>c\<in>set ds. is_digit c\<close> \<open>post = [] \<or> \<not> is_digit (hd post)\<close>
    show ?thesis by blast
  qed
qed

text \<open>A header in which the literal is followed by a digit somewhere has a match.\<close>

lemma re_search_max_age_finds:
  "is_digit d \<Longrightarrow> re_search_max_age (pre @ ''max-age='' @ d # post) \<noteq> None"
proof (induction pre)
  case Nil
  then show ?case by simp
next
  case (Cons p pre)
  then show ?case
    by (simp add: Let_def)
qed

lemma int_of_digits_snoc:
  "int_of_digits (ds @ [c]) = 10 * int_of_digits ds + (int (of_char c) - 48)"
  by (simp add: int_of_digits_def)

lemma is_digit_value: "is_digit c \<Longrightarrow> 0 \<le> int (of_char c) - 48 \<and> int (of_char c) - 48 \<le> 9"
  by (auto simp: is_digit_def)

lemma int_of_digits_nonneg: "\<forall>c\<in>set ds. is_digit c \<Longrightarrow> 0 \<le> int_of_digits ds"
proof (induction ds rule: rev_induct)
  case Nil
  then show ?case by (simp add: int_of_digits_def)
next
  case (snoc c ds)
  then show ?case
    using is_digit_value [of c] by (simp add: int_of_digits_snoc)
qed

lemma max_age_directive_nonneg: "max_age_directive f = Some d \<Longrightarrow> 0 \<le> d"
  using re_search_max_age_Some int_of_digits_nonneg
  by (fastforce simp: max_age_directive_def)

section \<open>Accepted results and the expiry that is written\<close>

lemma check_result_accepts:
  "check_result r = Inr f \<longleftrightarrow>
     r = Some f \<and> (\<exists>st. status f = Some st \<and> st \<le> 399 \<and> \<not> (st < 399 \<and> entries f = [] \<and> bozo f))"
  by (auto simp: check_result_def split: option.splits if_splits)

text \<open>
  When lines 148 to 153 give a TTL: \<open>int\<close> must accept the digits of the directive.
  The TTL is then the minimum of the directive and \<open>min_age\<close>, or \<open>min_age\<close>.
\<close>

lemma next_min_age_Inr:
  "next_min_age self p = Inr s \<longleftrightarrow>
     (case re_search_max_age (cc_header p) of
        Some g \<Rightarrow>
          (int_max_str_digits self = 0 \<or> length g \<le> int_max_str_digits self)
          \<and> s = min (int_of_digits g) (min_age self)
      | None \<Rightarrow> s = min_age self)"
  by (auto simp: next_min_age_def py_int_def split: option.splits)

lemma next_min_age_value:
  "next_min_age self p = Inr s \<Longrightarrow>
   s = (case max_age_directive p of Some d \<Rightarrow> min d (min_age self) | None \<Rightarrow> min_age self)"
  by (auto simp: next_min_age_Inr max_age_directive_def split: option.splits)

lemma next_min_age_le: "next_min_age self p = Inr s \<Longrightarrow> s \<le> min_age self"
  by (auto simp: next_min_age_Inr split: option.splits)

text \<open>
  When line 154 gives an expiry: the TTL must be a span that \<open>timedelta\<close> can hold and
  the sum a date that \<open>datetime\<close> can hold.
\<close>

lemma next_expire_dt_Inr:
  "next_expire_dt self now p = Inr t \<longleftrightarrow>
     (\<exists>s. next_min_age self p = Inr s \<and> \<bar>s div 86400\<bar> \<le> 999999999
        \<and> 0 \<le> now + s * 1000000 \<and> now + s * 1000000 < datetime_max
        \<and> t = now + s * 1000000)"
  by (auto simp: next_expire_dt_def timedelta_def datetime_add_def split: sum.splits if_splits)

text \<open>
  Ranges in which no line raises: a \<open>min_age\<close> that is not negative and small enough
  for \<open>timedelta\<close>, a clock reading from which \<open>min_age\<close> seconds stay within the
  dates of \<open>datetime\<close>, and a directive that \<open>int\<close> accepts.
\<close>

lemma next_expire_dt_in_range:
  assumes "0 \<le> min_age self" and "min_age self div 86400 \<le> 999999999"
    and "0 \<le> now" and "now + min_age self * 1000000 < datetime_max"
    and "int_max_str_digits self = 0
         \<or> (\<forall>g. re_search_max_age (cc_header p) = Some g \<longrightarrow> length g \<le> int_max_str_digits self)"
  shows "\<exists>t. next_expire_dt self now p = Inr t"
proof -
  obtain s where s: "next_min_age self p = Inr s"
    using assms(5) by (cases "re_search_max_age (cc_header p)") (auto simp: next_min_age_Inr)
  have le: "s \<le> min_age self"
    using s by (rule next_min_age_le)
  have ge: "0 \<le> s"
  proof (cases "max_age_directive p")
    case None
    with s assms(1) show ?thesis
      by (simp add: next_min_age_value [OF s])
  next
    case (Some d)
    with max_age_directive_nonneg [OF Some] assms(1) show ?thesis
      by (simp add: next_min_age_value [OF s])
  qed
  have "0 \<le> s div 86400" and "s div 86400 \<le> min_age self div 86400"
    using ge le by (simp_all add: pos_imp_zdiv_nonneg_iff zdiv_mono1)
  then have "\<bar>s div 86400\<bar> \<le> 999999999"
    using assms(2) by simp
  moreover have "0 \<le> now + s * 1000000" and "now + s * 1000000 < datetime_max"
    using ge le assms(3,4) by simp_all
  ultimately show ?thesis
    using s by (auto simp: next_expire_dt_Inr)
qed

lemma fetch_accepted:
  assumes "\<not> fresh_hit now w url"
    and "validators (cached_entry w url) = (e, m)"
    and "parse self url e m = Inr r"
    and "check_result r = Inr f"
    and "fetched_feed (cached_entry w url) f = Inr p"
    and "next_expire_dt self now p = Inr t"
  shows "fetch self now w url =
           (Inr p, FeedCache_update (w\<lparr>events := events w @ read_events w url @ [Parse url e m]\<rparr>) url
                     \<lparr>feed = p, expire_dt = t\<rparr>)"
  using assms
    fetch_remote_accepted [of "cached_entry w url" e m self url r f p now t
      "w\<lparr>events := events w @ read_events w url\<rparr>"]
  by (simp add: fetch_not_fresh)

text \<open>When the expiry cannot be computed, its error leaves \<open>fetch\<close> and nothing is stored.\<close>

lemma fetch_no_expiry:
  assumes "\<not> fresh_hit now w url"
    and "validators (cached_entry w url) = (e, m)"
    and "parse self url e m = Inr r"
    and "check_result r = Inr f"
    and "fetched_feed (cached_entry w url) f = Inr p"
    and "next_expire_dt self now p = Inl err"
  shows "fetch self now w url =
           (Inl err, w\<lparr>events := events w @ read_events w url @ [Parse url e m]\<rparr>)"
  using assms
    fetch_remote_no_expiry [of "cached_entry w url" e m self url r f p now err
      "w\<lparr>events := events w @ read_events w url\<rparr>"]
  by (simp add: fetch_not_fresh)

text \<open>
  The path of a result whose status is not 304: the result is returned and stored, its
  TTL is the minimum of the max-age of its own cache-control header and \<open>min_age\<close>,
  or \<open>min_age\<close> without the directive, and the expiry is that many seconds after the
  clock reading, so never later than \<open>min_age\<close> seconds after it.
\<close>

lemma written_ttl_of_result:
  assumes "\<not> fresh_hit now w url"
    and "validators (cached_entry w url) = (e, m)"
    and "parse self url e m = Inr (Some f)"
    and "check_result (Some f) = Inr f"
    and "status f \<noteq> Some 304"
    and "next_min_age self f = Inr ttl"
    and "\<bar>ttl div 86400\<bar> \<le> 999999999"
    and "0 \<le> now + ttl * 1000000" and "now + ttl * 1000000 < datetime_max"
  shows "fst (fetch self now w url) = Inr f
       \<and> cached_entry (snd (fetch self now w url)) url =
           Some \<lparr>feed = f, expire_dt = now + ttl * 1000000\<rparr>
       \<and> ttl = (case max_age_directive f of Some d \<Rightarrow> min d (min_age self) | None \<Rightarrow> min_age self)
       \<and> now + ttl * 1000000 \<le> now + min_age self * 1000000"
proof -
  have "fetched_feed (cached_entry w url) f = Inr f"
    using assms(5) by (simp add: fetched_feed_def)
  moreover have "next_expire_dt self now f = Inr (now + ttl * 1000000)"
    using assms(6-9) by (auto simp: next_expire_dt_Inr)
  ultimately have "fetch self now w url =
      (Inr f, FeedCache_update (w\<lparr>events := events w @ read_events w url @ [Parse url e m]\<rparr>) url
                \<lparr>feed = f, expire_dt = now + ttl * 1000000\<rparr>)"
    using assms(1-4) by (intro fetch_accepted) simp_all
  then show ?thesis
    using next_min_age_value [OF assms(6)] next_min_age_le [OF assms(6)]
    by (simp add: cached_entry_update)
qed

section \<open>Facts about the sample data\<close>

lemma stored_feed_max_age: "max_age_directive stored_feed = Some 60"
  by (simp add: max_age_directive_def cc_header_def stored_feed_def is_digit_def int_of_digits_def)

lemma stored_feed_min_age: "next_min_age (cache_returning r) stored_feed = Inr 60"
  by (simp add: next_min_age_def cc_header_def stored_feed_def is_digit_def int_of_digits_def
      py_int_def cache_returning_def)

lemma stored_feed_expire_dt: "next_expire_dt (cache_returning r) 100 stored_feed = Inr 60000100"
  by (simp add: next_expire_dt_def stored_feed_min_age timedelta_def datetime_add_def datetime_max_def)

lemma response_max_age_10:
  "max_age_directive (response st b [(''cache-control'', ''max-age=10'')]) = Some 10"
  by (simp add: max_age_directive_def cc_header_def response_def is_digit_def int_of_digits_def)

lemma response_no_max_age: "max_age_directive (response st b []) = None"
  by (simp add: max_age_directive_def cc_header_def response_def)

lemma min_age_cache_returning: "min_age (cache_returning r) = 1200"
  by (simp add: cache_returning_def)

lemma parse_cache_returning: "parse (cache_returning r) url e m = Inr r"
  by (simp add: cache_returning_def)

lemma no_store_miss:
  "\<not> fresh_hit now no_store url" "cached_entry no_store url = None"
  "read_events no_store url = []"
  by (simp_all add: fresh_hit_def cached_entry_def no_store_def read_events_def)

lemma store_until_entry:
  "cached_entry (store_until t) ''u'' = Some \<lparr>feed = stored_feed, expire_dt = t\<rparr>"
  "read_events (store_until t) ''u'' = [OpenShelf ''r'', ShelfGet ''u'']"
  "events (store_until t) = []"
  by (simp_all add: cached_entry_def store_until_def read_events_def)

lemma store_until_stale: "t \<le> now \<Longrightarrow> \<not> fresh_hit now (store_until t) ''u''"
  by (simp add: fresh_hit_def store_until_entry)

lemma stored_feed_validators:
  "validators (Some \<lparr>feed = stored_feed, expire_dt = t\<rparr>) =
     (Some ''abc'', Some ''Sat, 01 Jan 2022 00:00:00 GMT'')"
  by (simp add: validators_def stored_feed_def lstrip_def)

lemma plain_store_entry:
  "cached_entry plain_store ''u'' = Some \<lparr>feed = plain_feed, expire_dt = 50\<rparr>"
  "read_events plain_store ''u'' = [OpenShelf ''r'', ShelfGet ''u'']"
  "events plain_store = []"
  "validators (Some \<lparr>feed = plain_feed, expire_dt = 50\<rparr>) = (None, None)"
  by (simp_all add: cached_entry_def plain_store_def read_events_def validators_def plain_feed_def)

lemma response_accepted:
  "st \<le> 399 \<Longrightarrow> check_result (Some (response st False hs)) = Inr (response st False hs)"
  by (simp add: check_result_def response_def)

lemma response_status: "status (response st b hs) = Some st"
  by (simp add: response_def)

section \<open>Not modified\<close>

text \<open>
  The request that a stale entry leads to, with a result of status 304 that passes
  the checks: the feed of the entry replaces the result, and lines 148 to 154 compute
  the expiry from it. With an expiry the feed is returned and stored again; without
  one the error leaves \<open>fetch\<close> and the entry stays as it was.
\<close>

lemma fetch_not_modified:
  assumes "cached_entry w url = Some c" and "expire_dt c \<le> now"
    and "validators (Some c) = (e, m)"
    and "parse self url e m = Inr (Some f)"
    and "status f = Some 304"
    and "entries f \<noteq> [] \<or> \<not> bozo f"
  shows "fetch self now w url =
           (case next_expire_dt self now (feed c) of
              Inr t \<Rightarrow>
                (Inr (feed c),
                 FeedCache_update (w\<lparr>events := events w @ read_events w url @ [Parse url e m]\<rparr>) url
                   \<lparr>feed = feed c, expire_dt = t\<rparr>)
            | Inl err \<Rightarrow>
                (Inl err, w\<lparr>events := events w @ read_events w url @ [Parse url e m]\<rparr>))"
proof -
  have fresh: "\<not> fresh_hit now w url"
    using assms(1,2) by (simp add: fresh_hit_def)
  have val: "validators (cached_entry w url) = (e, m)"
    using assms(1,3) by simp
  have chk: "check_result (Some f) = Inr f"
    using assms(5,6) by (auto simp: check_result_def)
  have sub: "fetched_feed (cached_entry w url) f = Inr (feed c)"
    using assms(1,5) by (simp add: fetched_feed_def)
  show ?thesis
  proof (cases "next_expire_dt self now (feed c)")
    case (Inl err)
    then show ?thesis
      using fetch_no_expiry [OF fresh val assms(4) chk sub] by simp
  next
    case (Inr t)
    then show ?thesis
      using fetch_accepted [OF fresh val assms(4) chk sub] by simp
  qed
qed

text \<open>
  C5, as amended. For every call with a stale cached entry where the parse function
  returns a result of status 304 that is not rejected as a parse error (it has entries,
  or its bozo flag is not set), and where Python can represent the new expiry (\<open>int\<close>
  accepts the digits of the max-age that line 151 converts, the TTL \<open>ttl\<close> of lines
  148 to 153 is within the days of \<open>timedelta\<close>, and the clock reading plus \<open>ttl\<close>
  seconds is a date of \<open>datetime\<close>): the feed returned and the feed written back to
  the cache are the feed of the cached entry, not the result, and the expiry written is
  counted from the clock reading of this call, \<open>ttl\<close> seconds after it with \<open>ttl\<close> at
  most \<open>min_age\<close>.
\<close>

theorem not_modified_keeps_payload:
  assumes "cached_entry w url = Some c" and "expire_dt c \<le> now"
    and "validators (Some c) = (e, m)"
    and "parse self url e m = Inr (Some f)"
    and "status f = Some 304"
    and "entries f \<noteq> [] \<or> \<not> bozo f"
    and "next_min_age self (feed c) = Inr ttl"
    and "\<bar>ttl div 86400\<bar> \<le> 999999999"
    and "0 \<le> now + ttl * 1000000" and "now + ttl * 1000000 < datetime_max"
  shows "fst (fetch self now w url) = Inr (feed c)
       \<and> cached_entry (snd (fetch self now w url)) url =
           Some \<lparr>feed = feed c, expire_dt = now + ttl * 1000000\<rparr>
       \<and> ttl \<le> min_age self"
proof -
  have "next_expire_dt self now (feed c) = Inr (now + ttl * 1000000)"
    using assms(7-10) by (auto simp: next_expire_dt_Inr)
  then show ?thesis
    using fetch_not_modified [OF assms(1-6)] next_min_age_le [OF assms(7)]
    by (simp add: cached_entry_update)
qed

theorem not_modified_keeps_payload_witness:
  "fst (fetch (cache_returning (Some (response 304 False []))) 100 (store_until 50) ''u'') =
     Inr stored_feed
   \<and> cached_entry (snd (fetch (cache_returning (Some (response 304 False []))) 100
        (store_until 50) ''u'')) ''u'' =
       Some \<lparr>feed = stored_feed, expire_dt = 100 + 60 * 1000000\<rparr>
   \<and> 60 \<le> min_age (cache_returning (Some (response 304 False [])))"
  using not_modified_keeps_payload [where w = "store_until 50" and url = "''u''" and now = 100
      and c = "\<lparr>feed = stored_feed, expire_dt = 50\<rparr>" and e = "Some ''abc''"
      and m = "Some ''Sat, 01 Jan 2022 00:00:00 GMT''" and f = "response 304 False []"
      and self = "cache_returning (Some (response 304 False []))" and ttl = 60]
  by (simp add: store_until_entry stored_feed_validators parse_cache_returning response_status
      stored_feed_min_age datetime_max_def) (simp add: response_def)

text \<open>
  The claim as it is worded covers every result of status 304. A 304 without entries
  whose bozo flag is set is rejected by the check of line 134 before the status is
  compared with 304: \<open>ParseError\<close> is raised, no feed is returned and the stale entry
  stays as it was. And with a \<open>min_age\<close> of \<open>10^15\<close> seconds over a stored feed without
  max-age, \<open>timedelta\<close> raises \<open>OverflowError\<close> on line 154: again no feed is returned
  and the stale entry stays as it was.
\<close>

theorem not_modified_bozo_counterexample:
  "fetch (cache_returning (Some (response 304 True []))) 100 (store_until 50) ''u'' =
     (Inl (ParseError ''Parse error: not well-formed''),
      (store_until 50)\<lparr>events := [OpenShelf ''r'', ShelfGet ''u'',
         Parse ''u'' (Some ''abc'') (Some ''Sat, 01 Jan 2022 00:00:00 GMT'')]\<rparr>)
   \<and> fetch ((cache_returning (Some (response 304 False [])))\<lparr>min_age := 1000000000000000\<rparr>)
       100 plain_store ''u'' =
     (Inl OverflowError,
      plain_store\<lparr>events := [OpenShelf ''r'', ShelfGet ''u'', Parse ''u'' None None]\<rparr>)"
proof -
  let ?self = "(cache_returning (Some (response 304 False [])))\<lparr>min_age := 1000000000000000\<rparr>"
  have first: "fetch (cache_returning (Some (response 304 True []))) 100 (store_until 50) ''u'' =
     (Inl (ParseError ''Parse error: not well-formed''),
      (store_until 50)\<lparr>events := [OpenShelf ''r'', ShelfGet ''u'',
         Parse ''u'' (Some ''abc'') (Some ''Sat, 01 Jan 2022 00:00:00 GMT'')]\<rparr>)"
    using fetch_parse_error_below_399 [where now = 100 and w = "store_until 50" and url = "''u''"
        and e = "Some ''abc''" and m = "Some ''Sat, 01 Jan 2022 00:00:00 GMT''"
        and self = "cache_returning (Some (response 304 True []))" and f = "response 304 True []"
        and st = 304]
    by (simp add: store_until_stale store_until_entry stored_feed_validators parse_cache_returning
        response_status) (simp add: response_def str_opt_def)
  have "next_expire_dt ?self 100 plain_feed = Inl OverflowError"
    by (simp add: next_expire_dt_def next_min_age_def cc_header_def plain_feed_def
        cache_returning_def timedelta_def)
  then have second: "fetch ?self 100 plain_store ''u'' =
     (Inl OverflowError,
      plain_store\<lparr>events := [OpenShelf ''r'', ShelfGet ''u'', Parse ''u'' None None]\<rparr>)"
    using fetch_not_modified [where w = plain_store and url = "''u''" and now = 100
        and c = "\<lparr>feed = plain_feed, expire_dt = 50\<rparr>" and e = None and m = None
        and f = "response 304 False []" and self = ?self]
    by (simp add: plain_store_entry response_status)
      (simp add: cache_returning_def response_def)
  from first second show ?thesis by simp
qed

text \<open>
  C4 on a 304. The result is a 304 that passes the checks and carries a max-age of 10
  seconds; the stale feed in the cache carries one of 60 seconds, and \<open>min_age\<close> is
  1200. The claim has a TTL of 10 seconds, the minimum of the directive of the result
  and \<open>min_age\<close>. Line 148 reads the headers of \<open>fetched.feed\<close> after line 144 has put
  the cached feed there, so the entry written expires 60 seconds after the clock
  reading.
\<close>

theorem not_modified_ttl_not_of_result:
  "check_result (Some (response 304 False [(''cache-control'', ''max-age=10'')])) =
     Inr (response 304 False [(''cache-control'', ''max-age=10'')])
   \<and> max_age_directive (response 304 False [(''cache-control'', ''max-age=10'')]) = Some 10
   \<and> min_age (cache_returning (Some (response 304 False [(''cache-control'', ''max-age=10'')]))) = 1200
   \<and> cached_entry (snd (fetch (cache_returning
         (Some (response 304 False [(''cache-control'', ''max-age=10'')]))) 100 (store_until 50) ''u'')) ''u'' =
       Some \<lparr>feed = stored_feed, expire_dt = 100 + 60 * 1000000\<rparr>"
proof -
  let ?r = "response 304 False [(''cache-control'', ''max-age=10'')]"
  have "fetch (cache_returning (Some ?r)) 100 (store_until 50) ''u'' =
      (Inr stored_feed,
       FeedCache_update ((store_until 50)\<lparr>events := events (store_until 50)
           @ read_events (store_until 50) ''u''
           @ [Parse ''u'' (Some ''abc'') (Some ''Sat, 01 Jan 2022 00:00:00 GMT'')]\<rparr>) ''u''
         \<lparr>feed = stored_feed, expire_dt = 60000100\<rparr>)"
    using fetch_not_modified [where w = "store_until 50" and url = "''u''" and now = 100
        and c = "\<lparr>feed = stored_feed, expire_dt = 50\<rparr>" and e = "Some ''abc''"
        and m = "Some ''Sat, 01 Jan 2022 00:00:00 GMT''" and f = ?r
        and self = "cache_returning (Some ?r)"]
    by (simp add: store_until_entry stored_feed_validators parse_cache_returning response_status
        stored_feed_expire_dt) (simp add: response_def)
  then show ?thesis
    by (simp add: cached_entry_update response_accepted response_max_age_10 min_age_cache_returning)
qed

text \<open>
  C6 on a 304 without cache-control. The result is a 304 that passes the checks and
  carries no max-age, so the claim has the fallback, a TTL of \<open>min_age\<close>, 1200 seconds.
  The stale feed in the cache carries a max-age of 60 seconds, and the entry written
  expires 60 seconds after the clock reading: the TTL is taken from the headers of the
  stored feed, which line 144 has put in the place of the result.
\<close>

theorem not_modified_ttl_not_fallback:
  "check_result (Some (response 304 False [])) = Inr (response 304 False [])
   \<and> max_age_directive (response 304 False []) = None
   \<and> min_age (cache_returning (Some (response 304 False []))) = 1200
   \<and> cached_entry (snd (fetch (cache_returning (Some (response 304 False []))) 100
         (store_until 50) ''u'')) ''u'' =
       Some \<lparr>feed = stored_feed, expire_dt = 100 + 60 * 1000000\<rparr>"
proof -
  let ?r = "response 304 False []"
  have "fetch (cache_returning (Some ?r)) 100 (store_until 50) ''u'' =
      (Inr stored_feed,
       FeedCache_update ((store_until 50)\<lparr>events := events (store_until 50)
           @ read_events (store_until 50) ''u''
           @ [Parse ''u'' (Some ''abc'') (Some ''Sat, 01 Jan 2022 00:00:00 GMT'')]\<rparr>) ''u''
         \<lparr>feed = stored_feed, expire_dt = 60000100\<rparr>)"
    using fetch_not_modified [where w = "store_until 50" and url = "''u''" and now = 100
        and c = "\<lparr>feed = stored_feed, expire_dt = 50\<rparr>" and e = "Some ''abc''"
        and m = "Some ''Sat, 01 Jan 2022 00:00:00 GMT''" and f = ?r
        and self = "cache_returning (Some ?r)"]
    by (simp add: store_until_entry stored_feed_validators parse_cache_returning response_status
        stored_feed_expire_dt) (simp add: response_def)
  then show ?thesis
    by (simp add: cached_entry_update response_accepted response_no_max_age min_age_cache_returning)
qed

text \<open>
  C10, as amended. For every call where the cache holds no entry for the url and the
  parse function returns a result of status 304, \<open>fetch\<close> returns no feed and writes
  nothing. When the result has no entries and its bozo flag is set, it is rejected with
  \<open>ParseError\<close>; otherwise the replacement of the feed reads the absent cached entry
  and the call fails with \<open>AttributeError\<close>, which is neither \<open>FetchError\<close> nor
  \<open>ParseError\<close>.
\<close>

theorem not_modified_without_entry:
  assumes "cached_entry w url = None"
    and "parse self url None None = Inr (Some f)"
    and "status f = Some 304"
  shows "fetch self now w url =
           (Inl (if entries f = [] \<and> bozo f
                 then ParseError (''Parse error: '' @ str_opt (bozo_exception f))
                 else AttributeError),
            w\<lparr>events := events w @ read_events w url @ [Parse url None None]\<rparr>)"
proof (cases "entries f = [] \<and> bozo f")
  case True
  then show ?thesis
    using assms
      fetch_parse_error_below_399 [where now = now and w = w and url = url and e = None
        and m = None and self = self and f = f and st = 304]
    by (simp add: fresh_hit_def validators_def)
next
  case False
  let ?w = "w\<lparr>events := events w @ read_events w url\<rparr>"
  have "check_result (Some f) = Inr f"
    using False assms(3) by (auto simp: check_result_def)
  moreover have "fetched_feed None f = Inl AttributeError"
    using assms(3) by (simp add: fetched_feed_def)
  moreover have "validators None = (None, None)"
    by (simp add: validators_def)
  ultimately have "fetch_remote self now ?w url None =
      (Inl AttributeError, ?w\<lparr>events := events ?w @ [Parse url None None]\<rparr>)"
    using assms(2) by (intro fetch_remote_no_cached_feed) simp_all
  moreover have "\<not> fresh_hit now w url"
    using assms(1) by (simp add: fresh_hit_def)
  ultimately show ?thesis
    using False assms(1) by (simp add: fetch_not_fresh)
qed

theorem not_modified_without_entry_witness:
  "fetch (cache_returning (Some (response 304 False []))) 100 no_store ''u'' =
     (Inl AttributeError, no_store\<lparr>events := events no_store @ [Parse ''u'' None None]\<rparr>)"
  using not_modified_without_entry [where w = no_store and url = "''u''" and now = 100
      and f = "response 304 False []" and self = "cache_returning (Some (response 304 False []))"]
  by (simp add: no_store_miss parse_cache_returning response_status) (simp add: response_def)

text \<open>
  The claim as it is worded has an error outside \<open>FetchError\<close> and \<open>ParseError\<close> for
  every 304 without a cached entry. A 304 without entries whose bozo flag is set is
  rejected with \<open>ParseError\<close> before the cached entry is read.
\<close>

theorem not_modified_without_entry_counterexample:
  "cached_entry no_store ''u'' = None
   \<and> status (response 304 True []) = Some 304
   \<and> fetch (cache_returning (Some (response 304 True []))) 100 no_store ''u'' =
       (Inl (ParseError ''Parse error: not well-formed''),
        no_store\<lparr>events := [Parse ''u'' None None]\<rparr>)"
  by (simp add: no_store_miss response_status)
    (simp add: fetch_def FeedCache_get_def no_store_def fetch_remote_def validators_def
      cache_returning_def check_result_def response_def str_opt_def)

section \<open>Keys that were never written\<close>

lemma create_or_update_other:
  "key \<noteq> k \<Longrightarrow> cached_entry (create_or_update t w k v x) key = cached_entry w key"
  by (simp add: cached_entry_def create_or_update_def update_conv' split: option.splits)

lemma run_writes_other:
  "key \<notin> set (map (\<lambda>a. fst (snd a)) ws) \<Longrightarrow>
   cached_entry (run_writes w ws) key = cached_entry w key"
proof (induction ws arbitrary: w)
  case Nil
  then show ?case by simp
next
  case (Cons a ws)
  obtain t k v x where a: "a = (t, k, v, x)"
    by (cases a) auto
  with Cons.prems have "key \<noteq> k" and "key \<notin> set (map (\<lambda>a. fst (snd a)) ws)"
    by simp_all
  then show ?case
    using Cons.IH [of "create_or_update t w k v x"] a by (simp add: create_or_update_other)
qed

lemma ShelfCache_get_entry:
  "fst (ShelfCache_get now w key) =
     map_option (\<lambda>e. (payload e, is_stale now e)) (cached_entry w key)"
  by (simp add: ShelfCache_get_def cached_entry_def split: option.splits)

lemma ShelfCache_get_db: "db_file (snd (ShelfCache_get now w key)) = db_file w"
  by (simp add: ShelfCache_get_def split: option.splits)

lemma ShelfCache_get_without_db_file:
  "db_file w = None \<Longrightarrow> ShelfCache_get now w key = (None, w)"
  by (simp add: ShelfCache_get_def)

text \<open>
  C9. Start from a store that is absent or empty and apply any history of writes (the
  key of a write is the second component of its tuple). For every key that none of the
  writes names, \<open>get\<close> returns no result and the indexed read signals \<open>KeyError\<close>, the
  error of its own for a missing key; after either read the store file is exactly what
  it was before.
\<close>

theorem never_written_key_missing:
  assumes "db_file w0 = None \<or> db_file w0 = Some []"
    and "key \<notin> set (map (\<lambda>a. fst (snd a)) ws)"
  shows "fst (ShelfCache_get now (run_writes w0 ws) key) = None
       \<and> fst (ShelfCache_getitem now (run_writes w0 ws) key) = Inl KeyError
       \<and> db_file (snd (ShelfCache_get now (run_writes w0 ws) key)) = db_file (run_writes w0 ws)
       \<and> db_file (snd (ShelfCache_getitem now (run_writes w0 ws) key)) = db_file (run_writes w0 ws)"
proof -
  let ?w = "run_writes w0 ws"
  have "cached_entry w0 key = None"
    using assms(1) by (auto simp: cached_entry_def)
  then have "cached_entry ?w key = None"
    using run_writes_other [OF assms(2), of w0] by simp
  then have get: "fst (ShelfCache_get now ?w key) = None"
    by (simp add: ShelfCache_get_entry)
  then have "ShelfCache_getitem now ?w key = (Inl KeyError, snd (ShelfCache_get now ?w key))"
    by (cases "ShelfCache_get now ?w key") (simp add: ShelfCache_getitem_def)
  with get show ?thesis
    by (simp add: ShelfCache_get_db)
qed

theorem never_written_key_missing_witness:
  "fst (ShelfCache_get 30 (run_writes \<lparr>db_file = None, events = []\<rparr>
          [(10, ''a'', ''x'', Never), (20, ''b'', ''y'', After 5)]) ''c'') = None
   \<and> fst (ShelfCache_getitem 30 (run_writes \<lparr>db_file = None, events = []\<rparr>
          [(10, ''a'', ''x'', Never), (20, ''b'', ''y'', After 5)]) ''c'') = Inl KeyError
   \<and> db_file (snd (ShelfCache_getitem 30 (run_writes \<lparr>db_file = None, events = []\<rparr>
          [(10, ''a'', ''x'', Never), (20, ''b'', ''y'', After 5)]) ''c'')) =
       Some [(''a'', \<lparr>payload = ''x'', expire_at = None, created_at = 10\<rparr>),
             (''b'', \<lparr>payload = ''y'', expire_at = Some 5000020, created_at = 20\<rparr>)]"
proof -
  have "run_writes \<lparr>db_file = None, events = []\<rparr>
      [(10, ''a'', ''x'', Never), (20, ''b'', ''y'', After 5)] =
    \<lparr>db_file = Some [(''a'', \<lparr>payload = ''x'', expire_at = None, created_at = 10\<rparr>),
                     (''b'', \<lparr>payload = ''y'', expire_at = Some 5000020, created_at = 20\<rparr>)],
     events = [OpenShelf ''c'', ShelfSet ''a'', OpenShelf ''c'', ShelfSet ''b'']\<rparr>"
    by (simp add: create_or_update_def)
  then show ?thesis
    using never_written_key_missing [where ?w0.0 = "\<lparr>db_file = None, events = []\<rparr>"
        and ws = "[(10, ''a'', ''x'', Never), (20, ''b'', ''y'', After 5)]" and key = "''c''"
        and now = 30]
    by simp
qed

end

